theory Spec2Isabelle
  imports Complex_Main
begin

section \<open>The fixed precision tracker\<close>

text \<open>
  A shallow embedding of \<^verbatim>\<open>FixedPrecisionTracker\<close>
  (\<^verbatim>\<open>core/include/bertini2/tracking/fixed_precision_tracker.hpp\<close>).
  The tracker's real type \<^verbatim>\<open>RT\<close> is modelled by \<open>real\<close> and its complex type
  \<^verbatim>\<open>CT\<close> by \<open>complex\<close>, a vector \<^verbatim>\<open>Vec<CT>\<close> by a list: arithmetic is exact here,
  and the rounding of a machine numeric type is outside the model. Every member function is \<^verbatim>\<open>const\<close> and writes to the members of the
  tracker object all the same, so each one is modelled as a function from the tracker
  before the call to the returned code and the tracker after the call.
\<close>

subsection \<open>Codes and events\<close>

text \<open>
  The enumeration \<^verbatim>\<open>SuccessCode\<close> is declared outside the two files in hand. The four
  enumerators the tracker names are constructors; \<open>OtherCode\<close> stands for every other
  enumerator a predictor or a corrector may return.
\<close>

datatype SuccessCode =
    Success
  | MaxNumStepsTaken
  | MinStepSizeReached
  | GoingToInfinity
  | OtherCode nat

text \<open>The events handed to \<^verbatim>\<open>NotifyObservers\<close>, with the arguments other than the tracker.\<close>

datatype Event =
    Initializing complex complex "complex list"
  | NewStep
  | FirstStepPredictorMatrixSolveFailure
  | SuccessfulPredict "complex list"
  | CorrectorMatrixSolveFailure
  | SuccessfulCorrect "complex list"
  | SuccessfulStep
  | FailedStep
  | TrackingEnded
  | InfinitePathTruncation

subsection \<open>The tracker object\<close>

record Stepping =
  initial_step_size :: real
  min_step_size :: real
  step_size_fail_factor :: real
  min_num_steps :: nat
  max_num_steps :: nat

record Newton =
  min_num_newton_iterations :: nat
  max_num_newton_iterations :: nat

text \<open>
  The members of the tracker that the functions of the file read or write (the names of
  the source, without the trailing underscore). \<open>current_space\<close>, \<open>temporary_space\<close> and
  \<open>tentative_space\<close> are the \<^verbatim>\<open>Vec<CT>\<close> components that \<^verbatim>\<open>std::get\<close> selects. \<open>observed\<close> is
  the sequence of events the observers have been notified of, oldest first.
\<close>

record Tracker =
  stepping_config :: Stepping
  newton_config :: Newton
  reinitialize_stepsize :: bool
  frequency_of_CN_estimation :: nat
  tracking_tolerance :: real
  current_time :: complex
  delta_t :: complex
  current_stepsize :: real
  next_stepsize :: real
  current_space :: "complex list"
  temporary_space :: "complex list"
  tentative_space :: "complex list"
  condition_number_estimate :: real
  num_successful_steps_taken :: nat
  num_successful_steps_since_stepsize_increase :: nat
  num_steps_since_last_condition_number_computation :: nat
  observed :: "Event list"

subsection \<open>Members inherited from the base tracker\<close>

definition NotifyObservers :: "Event \<Rightarrow> Tracker \<Rightarrow> Tracker" where
  \<comment> \<open>Modelled from the spec: \<^verbatim>\<open>NotifyObservers\<close> belongs to the base classes, which are not
     among the files in hand. The spec makes the event sink purely observational: it
     never influences control flow and mutates no tracker state. The model appends the
     event to the log.\<close>
  "NotifyObservers e t = t\<lparr>observed := observed t @ [e]\<rparr>"

definition SetStepSize :: "real \<Rightarrow> Tracker \<Rightarrow> Tracker" where
  \<comment> \<open>Modelled from the spec: \<^verbatim>\<open>SetStepSize\<close> is a member of the base tracker, which is not
     among the files in hand. The spec has \<^verbatim>\<open>UpdateStepsize\<close>, whose whole body is this
     call, commit the given value as the new current step size.\<close>
  "SetStepSize new_stepsize t = t\<lparr>current_stepsize := new_stepsize\<rparr>"

definition Base_ResetCounters :: "Tracker \<Rightarrow> Tracker" where
  \<comment> \<open>Modelled from the spec: \<^verbatim>\<open>Base::ResetCounters\<close> is a member of the base tracker, which
     is not among the files in hand. The spec has initialization reset all counters to
     zero; the counter that the override does not assign itself is the number of
     successful steps taken.\<close>
  "Base_ResetCounters t = t\<lparr>num_successful_steps_taken := 0\<rparr>"

definition Base_IncrementCountersFail :: "Tracker \<Rightarrow> Tracker" where
  \<comment> \<open>Modelled from the spec: \<^verbatim>\<open>Base::IncrementCountersFail\<close> is a member of the base
     tracker, which is not among the files in hand. The spec gives the failure update no
     effect on the tracker state besides the reset that the override performs, and has it
     leave the total of successful steps untouched.\<close>
  "Base_IncrementCountersFail t = t"

subsection \<open>Initialization and the pre-iteration check\<close>

definition ResetCounters :: "Tracker \<Rightarrow> Tracker" where
  "ResetCounters t =
     (let t1 = Base_ResetCounters t;
          t2 = t1\<lparr>num_successful_steps_since_stepsize_increase := 0\<rparr>
      in t2\<lparr>num_steps_since_last_condition_number_computation :=
               frequency_of_CN_estimation t2\<rparr>)"

text \<open>
  The step size that initialization commits is \<^verbatim>\<open>min(initial_step_size, abs(start_time-end_time)/min_num_steps)\<close>.
  The divisor is a count and can be zero. The numeric type then yields no real number:
  the quotient of a positive distance by zero is positive infinity, and the quotient of
  the distance zero by zero is not a number. \<open>RT_quotient\<close> returns \<open>None\<close> for both.
  \<^verbatim>\<open>min(a, b)\<close> returns \<open>b\<close> when \<open>b < a\<close> and \<open>a\<close> otherwise, and \<open>b < a\<close> is false for a \<open>b\<close> that is
  infinite or not a number: \<open>RT_min\<close> returns its first argument then.
\<close>

definition RT_quotient :: "real \<Rightarrow> nat \<Rightarrow> real option" where
  "RT_quotient x n = (if n = 0 then None else Some (x / real n))"

definition RT_min :: "real \<Rightarrow> real option \<Rightarrow> real" where
  "RT_min a b = (case b of None \<Rightarrow> a | Some b' \<Rightarrow> if b' < a then b' else a)"

definition TrackerLoopInitialization ::
  "complex \<Rightarrow> complex \<Rightarrow> complex list \<Rightarrow> Tracker \<Rightarrow> SuccessCode \<times> Tracker" where
  "TrackerLoopInitialization start_time end_time start_point t =
     (let t1 = NotifyObservers (Initializing start_time end_time start_point) t;
          t2 = t1\<lparr>current_time := start_time\<rparr>;
          t3 = (if reinitialize_stepsize t2
                then SetStepSize
                       (RT_min (initial_step_size (stepping_config t2))
                               (RT_quotient (cmod (start_time - end_time))
                                            (min_num_steps (stepping_config t2)))) t2
                else t2);
          t4 = ResetCounters t3
      in (Success, t4))"

definition PreIterationCheck :: "Tracker \<Rightarrow> SuccessCode \<times> Tracker" where
  "PreIterationCheck t =
     (if num_successful_steps_taken t \<ge> max_num_steps (stepping_config t)
      then (MaxNumStepsTaken, t)
      else if current_stepsize t < min_step_size (stepping_config t)
      then (MinStepSizeReached, t)
      else (Success, t))"

subsection \<open>Predictor and corrector\<close>

text \<open>
  The free functions \<^verbatim>\<open>bertini::tracking::Predict\<close> and \<^verbatim>\<open>bertini::tracking::Correct\<close> are
  parameters of the model. A \<open>Predictor\<close> stands for \<^verbatim>\<open>Predict\<close> at the tracker's predictor
  choice and system. Its arguments are, in the order of the call, the vector it is to
  fill as found before the call, the current space, the current time, the time step, the
  condition number estimate and the number of steps since it was last computed, the
  frequency of the estimation and the tolerance. It returns its code with what it leaves
  in the three arguments the wrapper passes as modifiable objects: the predicted space,
  the condition number estimate and the number of steps since its computation. A
  \<open>Corrector\<close> takes the vector it is to fill, the system being fixed, the point to
  start from, the time, the tolerance and the two iteration bounds, and returns its code
  with the corrected space.
\<close>

type_synonym Predictor =
  "complex list \<Rightarrow> complex list \<Rightarrow> complex \<Rightarrow> complex \<Rightarrow> real \<Rightarrow> nat \<Rightarrow> nat \<Rightarrow> real
     \<Rightarrow> SuccessCode \<times> complex list \<times> real \<times> nat"

type_synonym Corrector =
  "complex list \<Rightarrow> complex list \<Rightarrow> complex \<Rightarrow> real \<Rightarrow> nat \<Rightarrow> nat
     \<Rightarrow> SuccessCode \<times> complex list"

text \<open>
  The member wrappers. Each returns the code, the vector left in its output argument and
  the tracker after the call.
\<close>

definition Predict ::
  "Predictor \<Rightarrow> complex list \<Rightarrow> complex list \<Rightarrow> complex \<Rightarrow> complex \<Rightarrow> Tracker
     \<Rightarrow> SuccessCode \<times> complex list \<times> Tracker" where
  "Predict P predicted_space current_space' current_time' delta_t' t =
     (case P predicted_space current_space' current_time' delta_t'
             (condition_number_estimate t)
             (num_steps_since_last_condition_number_computation t)
             (frequency_of_CN_estimation t)
             (tracking_tolerance t) of
        (code, predicted, cn, steps) \<Rightarrow>
          (code, predicted,
           t\<lparr>condition_number_estimate := cn,
             num_steps_since_last_condition_number_computation := steps\<rparr>))"

definition Correct ::
  "Corrector \<Rightarrow> complex list \<Rightarrow> complex list \<Rightarrow> complex \<Rightarrow> Tracker
     \<Rightarrow> SuccessCode \<times> complex list \<times> Tracker" where
  "Correct C corrected_space current_space' current_time' t =
     (case C corrected_space current_space' current_time'
             (tracking_tolerance t)
             (min_num_newton_iterations (newton_config t))
             (max_num_newton_iterations (newton_config t)) of
        (code, corrected) \<Rightarrow> (code, corrected, t))"

subsection \<open>One iteration\<close>

definition UpdateStepsize :: "Tracker \<Rightarrow> SuccessCode \<times> Tracker" where
  "UpdateStepsize t = (Success, SetStepSize (next_stepsize t) t)"

text \<open>
  \<^verbatim>\<open>predicted_space\<close>, \<^verbatim>\<open>current_space\<close> and \<^verbatim>\<open>tentative_next_space\<close> are references to the
  members \<open>temporary_space\<close>, \<open>current_space\<close> and \<open>tentative_space\<close>: what the predictor
  and the corrector write through them is stored in the tracker as soon as they return.
  \<^verbatim>\<open>current_time\<close> and \<^verbatim>\<open>delta_t\<close> are copies made before the predictor runs.
\<close>

definition TrackerIteration :: "Predictor \<Rightarrow> Corrector \<Rightarrow> Tracker \<Rightarrow> SuccessCode \<times> Tracker" where
  "TrackerIteration P C t =
     (let t1 = NotifyObservers NewStep t;
          current_time' = current_time t1;
          delta_t' = delta_t t1
      in case Predict P (temporary_space t1) (current_space t1) current_time' delta_t' t1 of
           (predictor_code, predicted, t2') \<Rightarrow>
             let t2 = t2'\<lparr>temporary_space := predicted\<rparr>
             in if predictor_code \<noteq> Success
                then
                  let t3 = NotifyObservers FirstStepPredictorMatrixSolveFailure t2;
                      t4 = t3\<lparr>next_stepsize :=
                                step_size_fail_factor (stepping_config t3) * current_stepsize t3\<rparr>;
                      t5 = snd (UpdateStepsize t4)
                  in (predictor_code, t5)
                else
                  let t3 = NotifyObservers (SuccessfulPredict (temporary_space t2)) t2;
                      tentative_next_time = current_time' + delta_t'
                  in case Correct C (tentative_space t3) (temporary_space t3)
                            tentative_next_time t3 of
                       (corrector_code, corrected, t4') \<Rightarrow>
                         let t4 = t4'\<lparr>tentative_space := corrected\<rparr>
                         in if corrector_code = GoingToInfinity
                            then (corrector_code, t4)
                            else if corrector_code \<noteq> Success
                            then
                              let t5 = NotifyObservers CorrectorMatrixSolveFailure t4;
                                  t6 = t5\<lparr>next_stepsize :=
                                            step_size_fail_factor (stepping_config t5)
                                              * current_stepsize t5\<rparr>;
                                  t7 = snd (UpdateStepsize t6)
                              in (corrector_code, t7)
                            else
                              let t5 = NotifyObservers
                                         (SuccessfulCorrect (tentative_space t4)) t4
                              in (Success, t5\<lparr>current_space := tentative_space t5\<rparr>))"

subsection \<open>The two calls of an iteration\<close>

text \<open>
  Names for the results of the calls that \<open>TrackerIteration\<close> makes when it starts from the
  tracker \<open>t\<close>, with the arguments it passes: the predictor runs on the tracker as found,
  and the corrector, which only runs after a successful prediction, starts from the
  predicted space at the time \<open>current_time + delta_t\<close>. Notifying the observers in
  between changes none of the members passed.
\<close>

definition predictor_call :: "Predictor \<Rightarrow> Tracker \<Rightarrow> SuccessCode \<times> complex list \<times> real \<times> nat" where
  "predictor_call P t =
     P (temporary_space t) (current_space t) (current_time t) (delta_t t)
       (condition_number_estimate t)
       (num_steps_since_last_condition_number_computation t)
       (frequency_of_CN_estimation t)
       (tracking_tolerance t)"

definition predictor_code :: "Predictor \<Rightarrow> Tracker \<Rightarrow> SuccessCode" where
  "predictor_code P t = fst (predictor_call P t)"

definition predicted_space :: "Predictor \<Rightarrow> Tracker \<Rightarrow> complex list" where
  "predicted_space P t = fst (snd (predictor_call P t))"

definition corrector_call :: "Predictor \<Rightarrow> Corrector \<Rightarrow> Tracker \<Rightarrow> SuccessCode \<times> complex list" where
  "corrector_call P C t =
     C (tentative_space t) (predicted_space P t) (current_time t + delta_t t)
       (tracking_tolerance t)
       (min_num_newton_iterations (newton_config t))
       (max_num_newton_iterations (newton_config t))"

definition corrector_code :: "Predictor \<Rightarrow> Corrector \<Rightarrow> Tracker \<Rightarrow> SuccessCode" where
  "corrector_code P C t = fst (corrector_call P C t)"

definition corrected_space :: "Predictor \<Rightarrow> Corrector \<Rightarrow> Tracker \<Rightarrow> complex list" where
  "corrected_space P C t = snd (corrector_call P C t)"

subsection \<open>Counters after an iteration\<close>

definition IncrementCountersFail :: "Tracker \<Rightarrow> Tracker" where
  "IncrementCountersFail t =
     (let t1 = Base_IncrementCountersFail t;
          t2 = t1\<lparr>num_successful_steps_since_stepsize_increase := 0\<rparr>
      in NotifyObservers FailedStep t2)"

subsection \<open>A tracker, predictors and correctors to compute with\<close>

definition example_tracker :: Tracker where
  "example_tracker =
     \<lparr>stepping_config =
        \<lparr>initial_step_size = 1 / 10, min_step_size = 1 / 1000,
         step_size_fail_factor = 1 / 2, min_num_steps = 1, max_num_steps = 100\<rparr>,
      newton_config = \<lparr>min_num_newton_iterations = 1, max_num_newton_iterations = 2\<rparr>,
      reinitialize_stepsize = True,
      frequency_of_CN_estimation = 1,
      tracking_tolerance = 1 / 100000,
      current_time = 1,
      delta_t = - (1 / 10),
      current_stepsize = 1 / 10,
      next_stepsize = 1 / 10,
      current_space = [5],
      temporary_space = [6],
      tentative_space = [7],
      condition_number_estimate = 0,
      num_successful_steps_taken = 4,
      num_successful_steps_since_stepsize_increase = 3,
      num_steps_since_last_condition_number_computation = 0,
      observed = []\<rparr>"

text \<open>The same tracker with a minimum number of steps of zero.\<close>

definition no_steps_tracker :: Tracker where
  "no_steps_tracker =
     example_tracker\<lparr>stepping_config := (stepping_config example_tracker)\<lparr>min_num_steps := 0\<rparr>\<rparr>"

definition predictor_succeeds :: Predictor where
  "predictor_succeeds predicted space time dt cn steps frequency tolerance =
     (Success, map (\<lambda>z. z + dt) space, cn, Suc steps)"

definition predictor_fails :: Predictor where
  "predictor_fails predicted space time dt cn steps frequency tolerance =
     (OtherCode 0, predicted, cn, steps)"

definition corrector_succeeds :: Corrector where
  "corrector_succeeds corrected space time tolerance min_its max_its = (Success, space)"

definition corrector_fails :: Corrector where
  "corrector_fails corrected space time tolerance min_its max_its = (OtherCode 1, space)"

definition corrector_diverges :: Corrector where
  "corrector_diverges corrected space time tolerance min_its max_its =
     (GoingToInfinity, space)"

section \<open>Differentiation of a product\<close>

text \<open>
  A shallow embedding of \<^verbatim>\<open>MultOperator::Differentiate\<close>
  (\<^verbatim>\<open>core/src/function_tree/operators/arithmetic.cpp\<close>).
\<close>

subsection \<open>Nodes\<close>

text \<open>
  The nodes of a function tree. \<open>Number\<close>, \<open>SumOperator\<close>, \<open>MultOperator\<close> and
  \<open>IntegerPowerOperator\<close> are the classes the file names; \<open>Symbol\<close> stands for a node of
  any other class (variables and the like). An operator holds its children in one vector
  and a flag for each child in a second one (\<^verbatim>\<open>children_sign_\<close>: true to add, false to
  subtract; \<^verbatim>\<open>children_mult_or_div_\<close>: true to multiply, false to divide). Children are
  only ever added by \<^verbatim>\<open>AddChild\<close>, one child with its flag, so the two vectors have the
  same length and the model keeps them as one list of pairs.
\<close>

datatype Node =
    Number complex
  | Symbol string
  | SumOperator "(Node \<times> bool) list"
  | MultOperator "(Node \<times> bool) list"
  | IntegerPowerOperator Node int

definition AddChild :: "Node \<Rightarrow> bool \<Rightarrow> (Node \<times> bool) list \<Rightarrow> (Node \<times> bool) list" where
  \<comment> \<open>Modelled from the spec: \<^verbatim>\<open>AddChild\<close> is defined in the header of the operators, which
     is not among the files in hand. The spec calls each call the insertion of a child;
     the child goes to the end of the children with its flag. Where a call gives no flag
     the model passes \<open>True\<close>, as the comment at the call that adds to the sum says.\<close>
  "AddChild child flag children = children @ [(child, flag)]"

definition is_Number :: "Node \<Rightarrow> bool" where
  \<comment> \<open>whether \<^verbatim>\<open>std::dynamic_pointer_cast<Number>\<close> of the node is not null\<close>
  "is_Number n = (case n of Number v \<Rightarrow> True | _ \<Rightarrow> False)"

definition Eval_dbl :: "Node \<Rightarrow> complex" where
  \<comment> \<open>\<^verbatim>\<open>Eval<dbl>()\<close>, which the file calls on numbers only\<close>
  "Eval_dbl n = (case n of Number v \<Rightarrow> v | _ \<Rightarrow> 0)"

subsection \<open>The derivative of a product\<close>

text \<open>
  \<^verbatim>\<open>children_[ii]->Differentiate()\<close> is a virtual call that the class of the child
  resolves, and most of these classes are outside the file: the derivative of a child is
  the parameter \<open>D\<close>.

  \<open>MultOperator_iteration\<close> is the body of the loop over \<open>ii\<close>: it takes the sum built so
  far and returns the sum after the iteration. An iteration left by \<^verbatim>\<open>continue\<close> returns
  the sum as it was. The counter \<^verbatim>\<open>term_counter\<close> is written and never read, and is left
  out.
\<close>

definition MultOperator_iteration ::
  "(Node \<Rightarrow> Node) \<Rightarrow> (Node \<times> bool) list \<Rightarrow> nat \<Rightarrow> (Node \<times> bool) list \<Rightarrow> (Node \<times> bool) list" where
  "MultOperator_iteration D children ii ret_sum =
     (let local_derivative = D (fst (children ! ii))
      in if is_Number local_derivative \<and> Eval_dbl local_derivative = 0
         then ret_sum
         else
           let term_ii = foldl (\<lambda>term jj.
                                  if jj \<noteq> ii
                                  then AddChild (fst (children ! jj)) (snd (children ! jj)) term
                                  else term)
                               [] [0..<length children]
           in if is_Number local_derivative \<and> Eval_dbl local_derivative = 1
              then ret_sum
              else if \<not> snd (children ! ii)
              then
                let term_ii1 = AddChild (fst (children ! ii)) False term_ii;
                    term_ii2 = AddChild (fst (children ! ii)) False term_ii1;
                    term_ii3 = AddChild local_derivative True term_ii2
                in AddChild (MultOperator term_ii3) False ret_sum
              else
                let term_ii1 = AddChild local_derivative True term_ii
                in AddChild (MultOperator term_ii1) True ret_sum)"

definition MultOperator_Differentiate :: "(Node \<Rightarrow> Node) \<Rightarrow> (Node \<times> bool) list \<Rightarrow> Node" where
  "MultOperator_Differentiate D children =
     SumOperator (foldl (\<lambda>ret_sum ii. MultOperator_iteration D children ii ret_sum)
                        [] [0..<length children])"

text \<open>
  What the product and quotient rules ask of the children: the children whose derivative
  is not the number zero, each of which owes the sum one term.
\<close>

definition is_zero :: "Node \<Rightarrow> bool" where
  "is_zero n = (is_Number n \<and> Eval_dbl n = 0)"

definition is_one :: "Node \<Rightarrow> bool" where
  "is_one n = (is_Number n \<and> Eval_dbl n = 1)"

definition terms_of :: "Node \<Rightarrow> (Node \<times> bool) list" where
  "terms_of n = (case n of SumOperator children \<Rightarrow> children | _ \<Rightarrow> [])"

definition other_children :: "(Node \<times> bool) list \<Rightarrow> nat \<Rightarrow> (Node \<times> bool) list" where
  "other_children children ii = take ii children @ drop (Suc ii) children"

definition quotient_rule_term :: "(Node \<Rightarrow> Node) \<Rightarrow> (Node \<times> bool) list \<Rightarrow> nat \<Rightarrow> Node" where
  "quotient_rule_term D children ii =
     MultOperator (other_children children ii
                     @ [(fst (children ! ii), False), (fst (children ! ii), False),
                        (D (fst (children ! ii)), True)])"

subsection \<open>Derivatives to compute with\<close>

definition d_dx :: "Node \<Rightarrow> Node" where
  \<comment> \<open>the derivative with respect to \<open>x\<close> of the leaves used below\<close>
  "d_dx n = (if n = Symbol ''x'' then Number 1 else Number 0)"

section \<open>Properties of the tracker\<close>

subsection \<open>The pre-iteration check\<close>

text \<open>
  C5. \<^verbatim>\<open>PreIterationCheck\<close> returns \<open>MaxNumStepsTaken\<close> when the number of successful steps
  taken has reached the configured maximum, whatever the step size is; otherwise
  \<open>MinStepSizeReached\<close> when the current step size is below the configured minimum;
  otherwise \<open>Success\<close>. In each case the tracker after the call is the tracker before it.
\<close>

theorem PreIterationCheck_cases:
  "(max_num_steps (stepping_config t) \<le> num_successful_steps_taken t
      \<longrightarrow> fst (PreIterationCheck t) = MaxNumStepsTaken)
   \<and> (num_successful_steps_taken t < max_num_steps (stepping_config t)
        \<and> current_stepsize t < min_step_size (stepping_config t)
      \<longrightarrow> fst (PreIterationCheck t) = MinStepSizeReached)
   \<and> (num_successful_steps_taken t < max_num_steps (stepping_config t)
        \<and> min_step_size (stepping_config t) \<le> current_stepsize t
      \<longrightarrow> fst (PreIterationCheck t) = Success)
   \<and> snd (PreIterationCheck t) = t"
  by (simp add: PreIterationCheck_def)

theorem PreIterationCheck_cases_witness:
  "max_num_steps (stepping_config example_tracker)
     \<le> num_successful_steps_taken
         (example_tracker\<lparr>num_successful_steps_taken := 100, current_stepsize := 0\<rparr>)
   \<and> current_stepsize
       (example_tracker\<lparr>num_successful_steps_taken := 100, current_stepsize := 0\<rparr>)
     < min_step_size (stepping_config example_tracker)
   \<and> fst (PreIterationCheck
            (example_tracker\<lparr>num_successful_steps_taken := 100, current_stepsize := 0\<rparr>))
     = MaxNumStepsTaken
   \<and> num_successful_steps_taken example_tracker
     < max_num_steps (stepping_config example_tracker)
   \<and> current_stepsize (example_tracker\<lparr>current_stepsize := 1 / 10000\<rparr>)
     < min_step_size (stepping_config example_tracker)
   \<and> fst (PreIterationCheck (example_tracker\<lparr>current_stepsize := 1 / 10000\<rparr>))
     = MinStepSizeReached
   \<and> min_step_size (stepping_config example_tracker) \<le> current_stepsize example_tracker
   \<and> fst (PreIterationCheck example_tracker) = Success
   \<and> snd (PreIterationCheck example_tracker) = example_tracker"
proof -
  have h:
    "max_num_steps (stepping_config example_tracker)
       \<le> num_successful_steps_taken
           (example_tracker\<lparr>num_successful_steps_taken := 100, current_stepsize := 0\<rparr>)"
    "current_stepsize
       (example_tracker\<lparr>num_successful_steps_taken := 100, current_stepsize := 0\<rparr>)
     < min_step_size (stepping_config example_tracker)"
    "stepping_config
       (example_tracker\<lparr>num_successful_steps_taken := 100, current_stepsize := 0\<rparr>)
     = stepping_config example_tracker"
    "num_successful_steps_taken example_tracker
     < max_num_steps (stepping_config example_tracker)"
    "num_successful_steps_taken (example_tracker\<lparr>current_stepsize := 1 / 10000\<rparr>)
     < max_num_steps (stepping_config (example_tracker\<lparr>current_stepsize := 1 / 10000\<rparr>))"
    "current_stepsize (example_tracker\<lparr>current_stepsize := 1 / 10000\<rparr>)
     < min_step_size (stepping_config example_tracker)"
    "stepping_config (example_tracker\<lparr>current_stepsize := 1 / 10000\<rparr>)
     = stepping_config example_tracker"
    "min_step_size (stepping_config example_tracker) \<le> current_stepsize example_tracker"
    by (simp_all add: example_tracker_def)
  from PreIterationCheck_cases
         [of "example_tracker\<lparr>num_successful_steps_taken := 100, current_stepsize := 0\<rparr>"]
       PreIterationCheck_cases [of "example_tracker\<lparr>current_stepsize := 1 / 10000\<rparr>"]
       PreIterationCheck_cases [of example_tracker]
       h
  show ?thesis by metis
qed

subsection \<open>The four ways through an iteration\<close>

text \<open>
  The tracker after an iteration, for each of the four paths of \<open>TrackerIteration\<close>.
\<close>

lemma TrackerIteration_both_succeed:
  assumes "predictor_code P t = Success" and "corrector_code P C t = Success"
  shows "TrackerIteration P C t =
           (Success,
            t\<lparr>temporary_space := predicted_space P t,
              condition_number_estimate := fst (snd (snd (predictor_call P t))),
              num_steps_since_last_condition_number_computation :=
                snd (snd (snd (predictor_call P t))),
              tentative_space := corrected_space P C t,
              current_space := corrected_space P C t,
              observed := observed t @ [NewStep, SuccessfulPredict (predicted_space P t),
                                        SuccessfulCorrect (corrected_space P C t)]\<rparr>)"
proof -
  obtain code predicted cn steps
    where e: "predictor_call P t = (code, predicted, cn, steps)"
    by (cases "predictor_call P t") auto
  obtain code' corrected
    where e': "corrector_call P C t = (code', corrected)"
    by (cases "corrector_call P C t") auto
  from assms e have p: "code = Success"
    by (simp add: predictor_code_def)
  from e have s: "predicted_space P t = predicted"
    by (simp add: predicted_space_def)
  from e' s have c: "C (tentative_space t) predicted (current_time t + delta_t t)
                       (tracking_tolerance t)
                       (min_num_newton_iterations (newton_config t))
                       (max_num_newton_iterations (newton_config t)) = (code', corrected)"
    by (simp add: corrector_call_def)
  from assms e' have "corrector_code P C t = code'" "corrected_space P C t = corrected"
    by (simp_all add: corrector_code_def corrected_space_def)
  with assms p s c e show ?thesis
    by (simp add: TrackerIteration_def Predict_def Correct_def NotifyObservers_def Let_def
                  UpdateStepsize_def SetStepSize_def predictor_call_def)
qed

lemma TrackerIteration_corrector_diverges:
  assumes "predictor_code P t = Success" and "corrector_code P C t = GoingToInfinity"
  shows "TrackerIteration P C t =
           (GoingToInfinity,
            t\<lparr>temporary_space := predicted_space P t,
              condition_number_estimate := fst (snd (snd (predictor_call P t))),
              num_steps_since_last_condition_number_computation :=
                snd (snd (snd (predictor_call P t))),
              tentative_space := corrected_space P C t,
              observed := observed t @ [NewStep, SuccessfulPredict (predicted_space P t)]\<rparr>)"
proof -
  obtain code predicted cn steps
    where e: "predictor_call P t = (code, predicted, cn, steps)"
    by (cases "predictor_call P t") auto
  obtain code' corrected
    where e': "corrector_call P C t = (code', corrected)"
    by (cases "corrector_call P C t") auto
  from assms e have p: "code = Success"
    by (simp add: predictor_code_def)
  from e have s: "predicted_space P t = predicted"
    by (simp add: predicted_space_def)
  from e' s have c: "C (tentative_space t) predicted (current_time t + delta_t t)
                       (tracking_tolerance t)
                       (min_num_newton_iterations (newton_config t))
                       (max_num_newton_iterations (newton_config t)) = (code', corrected)"
    by (simp add: corrector_call_def)
  from assms e' have "corrector_code P C t = code'" "corrected_space P C t = corrected"
    by (simp_all add: corrector_code_def corrected_space_def)
  with assms p s c e show ?thesis
    by (simp add: TrackerIteration_def Predict_def Correct_def NotifyObservers_def Let_def
                  UpdateStepsize_def SetStepSize_def predictor_call_def)
qed

lemma TrackerIteration_predictor_fails:
  assumes "predictor_code P t \<noteq> Success"
  shows "TrackerIteration P C t =
           (predictor_code P t,
            t\<lparr>temporary_space := predicted_space P t,
              condition_number_estimate := fst (snd (snd (predictor_call P t))),
              num_steps_since_last_condition_number_computation :=
                snd (snd (snd (predictor_call P t))),
              next_stepsize := step_size_fail_factor (stepping_config t) * current_stepsize t,
              current_stepsize := step_size_fail_factor (stepping_config t) * current_stepsize t,
              observed := observed t @ [NewStep, FirstStepPredictorMatrixSolveFailure]\<rparr>)"
proof -
  obtain code predicted cn steps
    where e: "predictor_call P t = (code, predicted, cn, steps)"
    by (cases "predictor_call P t") auto
  with assms have "code \<noteq> Success"
    by (simp add: predictor_code_def)
  with e show ?thesis
    by (simp add: TrackerIteration_def Predict_def NotifyObservers_def Let_def
                  UpdateStepsize_def SetStepSize_def
                  predictor_code_def predicted_space_def predictor_call_def)
qed

lemma TrackerIteration_corrector_fails:
  assumes "predictor_code P t = Success"
    and "corrector_code P C t \<noteq> GoingToInfinity" and "corrector_code P C t \<noteq> Success"
  shows "TrackerIteration P C t =
           (corrector_code P C t,
            t\<lparr>temporary_space := predicted_space P t,
              condition_number_estimate := fst (snd (snd (predictor_call P t))),
              num_steps_since_last_condition_number_computation :=
                snd (snd (snd (predictor_call P t))),
              tentative_space := corrected_space P C t,
              next_stepsize := step_size_fail_factor (stepping_config t) * current_stepsize t,
              current_stepsize := step_size_fail_factor (stepping_config t) * current_stepsize t,
              observed := observed t @ [NewStep, SuccessfulPredict (predicted_space P t),
                                        CorrectorMatrixSolveFailure]\<rparr>)"
proof -
  obtain code predicted cn steps
    where e: "predictor_call P t = (code, predicted, cn, steps)"
    by (cases "predictor_call P t") auto
  obtain code' corrected
    where e': "corrector_call P C t = (code', corrected)"
    by (cases "corrector_call P C t") auto
  from assms e have p: "code = Success"
    by (simp add: predictor_code_def)
  from e have s: "predicted_space P t = predicted"
    by (simp add: predicted_space_def)
  from e' s have c: "C (tentative_space t) predicted (current_time t + delta_t t)
                       (tracking_tolerance t)
                       (min_num_newton_iterations (newton_config t))
                       (max_num_newton_iterations (newton_config t)) = (code', corrected)"
    by (simp add: corrector_call_def)
  from assms e' have "corrector_code P C t = code'" "corrected_space P C t = corrected"
    by (simp_all add: corrector_code_def corrected_space_def)
  with assms p s c e show ?thesis
    by (simp add: TrackerIteration_def Predict_def Correct_def NotifyObservers_def Let_def
                  UpdateStepsize_def SetStepSize_def predictor_call_def)
qed

lemma TrackerIteration_Success_iff:
  "fst (TrackerIteration P C t) = Success
     \<longleftrightarrow> predictor_code P t = Success \<and> corrector_code P C t = Success"
proof (cases "predictor_code P t = Success")
  case False
  then show ?thesis by (simp add: TrackerIteration_predictor_fails)
next
  case p: True
  show ?thesis
  proof (cases "corrector_code P C t = GoingToInfinity")
    case True
    with p show ?thesis by (simp add: TrackerIteration_corrector_diverges)
  next
    case g: False
    show ?thesis
    proof (cases "corrector_code P C t = Success")
      case True
      with p show ?thesis by (simp add: TrackerIteration_both_succeed)
    next
      case False
      with p g show ?thesis by (simp add: TrackerIteration_corrector_fails)
    qed
  qed
qed

subsection \<open>The outcome of an iteration\<close>

text \<open>
  C1. In an iteration in which the predictor and the corrector both return \<open>Success\<close>,
  the tracker returns \<open>Success\<close> and its current space is the point the corrector
  produced. Hence, whenever an iteration returns \<open>Success\<close>, the current space after it
  is the tentative space after it, the last point accepted.
\<close>

theorem TrackerIteration_commits_on_success:
  "(predictor_code P t = Success \<and> corrector_code P C t = Success
      \<longrightarrow> fst (TrackerIteration P C t) = Success
        \<and> current_space (snd (TrackerIteration P C t)) = corrected_space P C t)
   \<and> (fst (TrackerIteration P C t) = Success
      \<longrightarrow> current_space (snd (TrackerIteration P C t))
            = tentative_space (snd (TrackerIteration P C t)))"
  by (simp add: TrackerIteration_Success_iff TrackerIteration_both_succeed)

theorem TrackerIteration_commits_on_success_witness:
  "predictor_code predictor_succeeds example_tracker = Success
   \<and> corrector_code predictor_succeeds corrector_succeeds example_tracker = Success
   \<and> fst (TrackerIteration predictor_succeeds corrector_succeeds example_tracker) = Success
   \<and> current_space (snd (TrackerIteration predictor_succeeds corrector_succeeds
                            example_tracker)) = [49 / 10]
   \<and> tentative_space (snd (TrackerIteration predictor_succeeds corrector_succeeds
                              example_tracker)) = [49 / 10]"
proof -
  have p: "predictor_code predictor_succeeds example_tracker = Success"
    by (simp add: predictor_code_def predictor_call_def predictor_succeeds_def)
  have c: "corrector_code predictor_succeeds corrector_succeeds example_tracker = Success"
    by (simp add: corrector_code_def corrector_call_def corrector_succeeds_def)
  have s: "corrected_space predictor_succeeds corrector_succeeds example_tracker = [49 / 10]"
    by (simp add: corrected_space_def corrector_call_def corrector_succeeds_def
                  predicted_space_def predictor_call_def predictor_succeeds_def
                  example_tracker_def)
  from TrackerIteration_commits_on_success
         [of predictor_succeeds example_tracker corrector_succeeds] p c s
  show ?thesis by auto
qed

text \<open>
  C2. In an iteration in which the corrector returns \<open>GoingToInfinity\<close> (it is called, so
  the predictor has returned \<open>Success\<close>), the tracker returns that code, and the next
  step size, the current step size and the current space are what they were before the
  iteration.
\<close>

theorem TrackerIteration_GoingToInfinity:
  assumes "predictor_code P t = Success" and "corrector_code P C t = GoingToInfinity"
  shows "fst (TrackerIteration P C t) = GoingToInfinity
         \<and> next_stepsize (snd (TrackerIteration P C t)) = next_stepsize t
         \<and> current_stepsize (snd (TrackerIteration P C t)) = current_stepsize t
         \<and> current_space (snd (TrackerIteration P C t)) = current_space t"
  using assms by (simp add: TrackerIteration_corrector_diverges)

theorem TrackerIteration_GoingToInfinity_witness:
  "predictor_code predictor_succeeds example_tracker = Success
   \<and> corrector_code predictor_succeeds corrector_diverges example_tracker = GoingToInfinity
   \<and> fst (TrackerIteration predictor_succeeds corrector_diverges example_tracker)
       = GoingToInfinity
   \<and> next_stepsize (snd (TrackerIteration predictor_succeeds corrector_diverges
                           example_tracker)) = 1 / 10
   \<and> current_stepsize (snd (TrackerIteration predictor_succeeds corrector_diverges
                              example_tracker)) = 1 / 10
   \<and> current_space (snd (TrackerIteration predictor_succeeds corrector_diverges
                           example_tracker)) = [5]"
proof -
  have p: "predictor_code predictor_succeeds example_tracker = Success"
    by (simp add: predictor_code_def predictor_call_def predictor_succeeds_def)
  have c: "corrector_code predictor_succeeds corrector_diverges example_tracker
             = GoingToInfinity"
    by (simp add: corrector_code_def corrector_call_def corrector_diverges_def)
  from TrackerIteration_GoingToInfinity [OF p c] p c
  show ?thesis by (simp add: example_tracker_def)
qed

text \<open>
  C3. In an iteration in which the predictor returns a code other than \<open>Success\<close>, or the
  predictor succeeds and the corrector returns a code other than \<open>Success\<close> and
  \<open>GoingToInfinity\<close>, the next step size becomes the fail factor times the current step
  size found at the start of the iteration, the current step size becomes that same
  value, and the code returned is the code of the stage that failed.
\<close>

theorem TrackerIteration_shrinks_on_failure:
  "(predictor_code P t \<noteq> Success
      \<longrightarrow> fst (TrackerIteration P C t) = predictor_code P t
        \<and> next_stepsize (snd (TrackerIteration P C t))
            = step_size_fail_factor (stepping_config t) * current_stepsize t
        \<and> current_stepsize (snd (TrackerIteration P C t))
            = step_size_fail_factor (stepping_config t) * current_stepsize t)
   \<and> (predictor_code P t = Success \<and> corrector_code P C t \<noteq> Success
        \<and> corrector_code P C t \<noteq> GoingToInfinity
      \<longrightarrow> fst (TrackerIteration P C t) = corrector_code P C t
        \<and> next_stepsize (snd (TrackerIteration P C t))
            = step_size_fail_factor (stepping_config t) * current_stepsize t
        \<and> current_stepsize (snd (TrackerIteration P C t))
            = step_size_fail_factor (stepping_config t) * current_stepsize t)"
  by (simp add: TrackerIteration_predictor_fails TrackerIteration_corrector_fails)

theorem TrackerIteration_shrinks_on_failure_witness:
  "predictor_code predictor_fails example_tracker \<noteq> Success
   \<and> fst (TrackerIteration predictor_fails corrector_succeeds example_tracker) = OtherCode 0
   \<and> next_stepsize (snd (TrackerIteration predictor_fails corrector_succeeds
                           example_tracker)) = 1 / 20
   \<and> current_stepsize (snd (TrackerIteration predictor_fails corrector_succeeds
                              example_tracker)) = 1 / 20
   \<and> predictor_code predictor_succeeds example_tracker = Success
   \<and> corrector_code predictor_succeeds corrector_fails example_tracker \<noteq> Success
   \<and> corrector_code predictor_succeeds corrector_fails example_tracker \<noteq> GoingToInfinity
   \<and> fst (TrackerIteration predictor_succeeds corrector_fails example_tracker) = OtherCode 1
   \<and> next_stepsize (snd (TrackerIteration predictor_succeeds corrector_fails
                           example_tracker)) = 1 / 20
   \<and> current_stepsize (snd (TrackerIteration predictor_succeeds corrector_fails
                              example_tracker)) = 1 / 20"
proof -
  have pf: "predictor_code predictor_fails example_tracker = OtherCode 0"
    by (simp add: predictor_code_def predictor_call_def predictor_fails_def)
  have ps: "predictor_code predictor_succeeds example_tracker = Success"
    by (simp add: predictor_code_def predictor_call_def predictor_succeeds_def)
  have cf: "corrector_code predictor_succeeds corrector_fails example_tracker = OtherCode 1"
    by (simp add: corrector_code_def corrector_call_def corrector_fails_def)
  have f: "step_size_fail_factor (stepping_config example_tracker)
             * current_stepsize example_tracker = 1 / 20"
    by (simp add: example_tracker_def)
  from TrackerIteration_shrinks_on_failure
         [of predictor_fails example_tracker corrector_succeeds]
       TrackerIteration_shrinks_on_failure
         [of predictor_succeeds example_tracker corrector_fails]
       pf ps cf f
  show ?thesis by simp
qed

subsection \<open>The counters after a failure\<close>

text \<open>
  C6. The update of the counters after a failed iteration sets the number of successful
  steps since the last increase of the step size to zero, whatever it was, and leaves the
  total number of successful steps taken as it was.
\<close>

theorem IncrementCountersFail_resets_streak:
  "num_successful_steps_since_stepsize_increase (IncrementCountersFail t) = 0
   \<and> num_successful_steps_taken (IncrementCountersFail t) = num_successful_steps_taken t"
  by (simp add: IncrementCountersFail_def Base_IncrementCountersFail_def NotifyObservers_def)

subsection \<open>Initialization\<close>


text \<open>
  C7. The claim is that initialization sets the current time to the start time and the
  current space to the start point, and returns \<open>Success\<close>. The function stores the start
  time and returns \<open>Success\<close>, and it never assigns the current space: started on a
  tracker whose current space is \<open>[5]\<close> with the start point \<open>[1]\<close>, it leaves the current
  space at \<open>[5]\<close>.
\<close>

theorem TrackerLoopInitialization_keeps_current_space:
  "fst (TrackerLoopInitialization 2 0 [1] example_tracker) = Success
   \<and> current_time (snd (TrackerLoopInitialization 2 0 [1] example_tracker)) = 2
   \<and> current_space (snd (TrackerLoopInitialization 2 0 [1] example_tracker)) = [5]
   \<and> current_space (snd (TrackerLoopInitialization 2 0 [1] example_tracker)) \<noteq> [1]"
  by (simp add: TrackerLoopInitialization_def ResetCounters_def Base_ResetCounters_def
                SetStepSize_def NotifyObservers_def Let_def example_tracker_def)

text \<open>
  C8. When the tracker reinitializes its step size, initialization sets the current step
  size to the smaller of the initial step size and the distance from the start time to
  the end time divided by the minimum number of steps. This is stated for a minimum
  number of steps that is not zero; for zero the quotient is infinite or not a number,
  and the step size set is the initial step size. In every case initialization sets the
  number of successful steps taken and the number of successful steps since the last
  increase of the step size to zero, and the number of steps since the last computation
  of the condition number to the frequency of that computation.
\<close>

theorem TrackerLoopInitialization_stepsize_and_counters:
  "(reinitialize_stepsize t \<and> 0 < min_num_steps (stepping_config t)
      \<longrightarrow> current_stepsize (snd (TrackerLoopInitialization start_time end_time start_point t))
            = min (initial_step_size (stepping_config t))
                  (cmod (start_time - end_time) / real (min_num_steps (stepping_config t))))
   \<and> (reinitialize_stepsize t \<and> min_num_steps (stepping_config t) = 0
      \<longrightarrow> current_stepsize (snd (TrackerLoopInitialization start_time end_time start_point t))
            = initial_step_size (stepping_config t))
   \<and> num_successful_steps_taken
        (snd (TrackerLoopInitialization start_time end_time start_point t)) = 0
   \<and> num_successful_steps_since_stepsize_increase
        (snd (TrackerLoopInitialization start_time end_time start_point t)) = 0
   \<and> num_steps_since_last_condition_number_computation
        (snd (TrackerLoopInitialization start_time end_time start_point t))
       = frequency_of_CN_estimation t"
  by (auto simp add: TrackerLoopInitialization_def ResetCounters_def Base_ResetCounters_def
                     SetStepSize_def NotifyObservers_def Let_def RT_min_def RT_quotient_def
                     min_def)

theorem TrackerLoopInitialization_stepsize_and_counters_witness:
  "reinitialize_stepsize example_tracker
   \<and> 0 < min_num_steps (stepping_config example_tracker)
   \<and> current_stepsize (snd (TrackerLoopInitialization 1 (1 / 2) [1] example_tracker)) = 1 / 10
   \<and> current_stepsize (snd (TrackerLoopInitialization 1 (19 / 20) [1] example_tracker)) = 1 / 20
   \<and> reinitialize_stepsize no_steps_tracker
   \<and> min_num_steps (stepping_config no_steps_tracker) = 0
   \<and> current_stepsize (snd (TrackerLoopInitialization 1 (1 / 2) [1] no_steps_tracker)) = 1 / 10
   \<and> num_successful_steps_taken
        (snd (TrackerLoopInitialization 1 (1 / 2) [1] example_tracker)) = 0
   \<and> num_successful_steps_since_stepsize_increase
        (snd (TrackerLoopInitialization 1 (1 / 2) [1] example_tracker)) = 0
   \<and> num_steps_since_last_condition_number_computation
        (snd (TrackerLoopInitialization 1 (1 / 2) [1] example_tracker)) = 1"
proof -
  have r: "reinitialize_stepsize example_tracker"
    and n: "0 < min_num_steps (stepping_config example_tracker)"
    and r0: "reinitialize_stepsize no_steps_tracker"
    and n0: "min_num_steps (stepping_config no_steps_tracker) = 0"
    and i0: "initial_step_size (stepping_config no_steps_tracker) = 1 / 10"
    by (simp_all add: example_tracker_def no_steps_tracker_def)
  have a: "min (initial_step_size (stepping_config example_tracker))
               (cmod (1 - 1 / 2) / real (min_num_steps (stepping_config example_tracker)))
           = 1 / 10"
    by (simp add: example_tracker_def norm_divide)
  have "(1::complex) - 19 / 20 = 1 / 20" by simp
  then have b: "min (initial_step_size (stepping_config example_tracker))
               (cmod (1 - 19 / 20) / real (min_num_steps (stepping_config example_tracker)))
           = 1 / 20"
    by (simp add: example_tracker_def norm_divide)
  have f: "frequency_of_CN_estimation example_tracker = 1"
    by (simp add: example_tracker_def)
  note first = TrackerLoopInitialization_stepsize_and_counters
                 [of example_tracker 1 "1 / 2" "[1]"]
  note second = TrackerLoopInitialization_stepsize_and_counters
                  [of example_tracker 1 "19 / 20" "[1]"]
  note third = TrackerLoopInitialization_stepsize_and_counters
                 [of no_steps_tracker 1 "1 / 2" "[1]"]
  from first r n have "current_stepsize
                       (snd (TrackerLoopInitialization 1 (1 / 2) [1] example_tracker))
                     = min (initial_step_size (stepping_config example_tracker))
                           (cmod (1 - 1 / 2)
                              / real (min_num_steps (stepping_config example_tracker)))"
    by blast
  with a have s1: "current_stepsize
                     (snd (TrackerLoopInitialization 1 (1 / 2) [1] example_tracker)) = 1 / 10"
    by (simp only:)
  from second r n have "current_stepsize
                        (snd (TrackerLoopInitialization 1 (19 / 20) [1] example_tracker))
                      = min (initial_step_size (stepping_config example_tracker))
                            (cmod (1 - 19 / 20)
                               / real (min_num_steps (stepping_config example_tracker)))"
    by blast
  with b have s2: "current_stepsize
                     (snd (TrackerLoopInitialization 1 (19 / 20) [1] example_tracker)) = 1 / 20"
    by (simp only:)
  from third r0 n0 have "current_stepsize
                           (snd (TrackerLoopInitialization 1 (1 / 2) [1] no_steps_tracker))
                         = initial_step_size (stepping_config no_steps_tracker)"
    by blast
  with i0 have s3: "current_stepsize
                      (snd (TrackerLoopInitialization 1 (1 / 2) [1] no_steps_tracker)) = 1 / 10"
    by (simp only:)
  from first f have
    "num_successful_steps_taken
       (snd (TrackerLoopInitialization 1 (1 / 2) [1] example_tracker)) = 0"
    "num_successful_steps_since_stepsize_increase
       (snd (TrackerLoopInitialization 1 (1 / 2) [1] example_tracker)) = 0"
    "num_steps_since_last_condition_number_computation
       (snd (TrackerLoopInitialization 1 (1 / 2) [1] example_tracker)) = 1"
    by (simp_all only:)
  with r n r0 n0 s1 s2 s3 show ?thesis by blast
qed

subsection \<open>The step size while the tracker goes on\<close>




section \<open>Properties of the derivative of a product\<close>

subsection \<open>The loops\<close>

text \<open>
  The inner loop collects the children other than the one at \<open>ii\<close>, in their order and with
  their flags.
\<close>

lemma term_ii_foldl:
  "foldl (\<lambda>term jj. if jj \<noteq> ii
                     then AddChild (fst (children ! jj)) (snd (children ! jj)) term
                     else term) acc js
   = acc @ map ((!) children) (filter (\<lambda>jj. jj \<noteq> ii) js)"
  by (induction js arbitrary: acc) (simp_all add: AddChild_def)

lemma other_children_upt:
  assumes "ii < length children"
  shows "map ((!) children) (filter (\<lambda>jj. jj \<noteq> ii) [0..<length children])
         = other_children children ii"
proof -
  have split: "[0..<length children] = [0..<ii] @ ii # [Suc ii..<length children]"
  proof -
    define k where "k = length children - ii"
    with assms have k: "length children = ii + k"
      by simp
    have "[0..<ii + k] = [0..<ii] @ [ii..<ii + k]"
      by (rule upt_add_eq_append) simp
    moreover from assms k have "ii < ii + k"
      by simp
    then have "[ii..<ii + k] = ii # [Suc ii..<ii + k]"
      by (rule upt_conv_Cons)
    ultimately show ?thesis
      by (simp only: k)
  qed
  have l: "filter (\<lambda>jj. jj \<noteq> ii) [0..<ii] = [0..<ii]"
    by (rule filter_True) simp
  have r: "filter (\<lambda>jj. jj \<noteq> ii) [Suc ii..<length children] = [Suc ii..<length children]"
    by (rule filter_True) simp
  have t: "map ((!) children) [0..<ii] = take ii children"
  proof -
    have "take ii children = take ii (map ((!) children) [0..<length children])"
      by (simp only: map_nth)
    also have "\<dots> = map ((!) children) (take ii [0..<length children])"
      by (rule take_map)
    also have "take ii [0..<length children] = [0..<ii]"
      using assms by simp
    finally show ?thesis by simp
  qed
  have d: "map ((!) children) [Suc ii..<length children] = drop (Suc ii) children"
  proof -
    have "drop (Suc ii) children = drop (Suc ii) (map ((!) children) [0..<length children])"
      by (simp only: map_nth)
    also have "\<dots> = map ((!) children) (drop (Suc ii) [0..<length children])"
      by (rule drop_map)
    also have "drop (Suc ii) [0..<length children] = [Suc ii..<length children]"
      by simp
    finally show ?thesis by simp
  qed
  have "map ((!) children) (filter (\<lambda>jj. jj \<noteq> ii) [0..<length children])
        = map ((!) children)
            (filter (\<lambda>jj. jj \<noteq> ii) [0..<ii]
               @ filter (\<lambda>jj. jj \<noteq> ii) [Suc ii..<length children])"
    by (subst split) simp
  also have "\<dots> = map ((!) children) [0..<ii]
                    @ map ((!) children) [Suc ii..<length children]"
    by (simp only: l r map_append)
  finally show ?thesis
    by (simp only: t d other_children_def)
qed

text \<open>
  An iteration adds at most one term at the end of the sum: none when the derivative of
  the child is the number zero or the number one, the product of the other children and
  the derivative for a child that multiplies, and the quotient rule term, to be
  subtracted, for a child that divides.
\<close>

lemma MultOperator_iteration_append:
  "MultOperator_iteration D children ii ret_sum
   = ret_sum @ MultOperator_iteration D children ii []"
  by (simp add: MultOperator_iteration_def AddChild_def Let_def)

lemma MultOperator_iteration_alone:
  assumes "ii < length children"
  shows "MultOperator_iteration D children ii []
         = (if is_zero (D (fst (children ! ii))) \<or> is_one (D (fst (children ! ii)))
            then []
            else if snd (children ! ii)
            then [(MultOperator (other_children children ii
                                   @ [(D (fst (children ! ii)), True)]), True)]
            else [(quotient_rule_term D children ii, False)])"
  using other_children_upt [OF assms]
  by (simp add: MultOperator_iteration_def AddChild_def Let_def term_ii_foldl
                is_zero_def is_one_def quotient_rule_term_def)

lemma ret_sum_foldl:
  "foldl (\<lambda>ret_sum ii. MultOperator_iteration D children ii ret_sum) acc iis
   = acc @ concat (map (\<lambda>ii. MultOperator_iteration D children ii []) iis)"
proof (induction iis arbitrary: acc)
  case Nil
  show ?case by simp
next
  case (Cons ii iis)
  show ?case
    by (simp add: Cons.IH MultOperator_iteration_append [of D children ii acc])
qed

lemma terms_of_MultOperator_Differentiate:
  "terms_of (MultOperator_Differentiate D children)
   = concat (map (\<lambda>ii. MultOperator_iteration D children ii []) [0..<length children])"
  by (simp add: terms_of_def MultOperator_Differentiate_def ret_sum_foldl)

subsection \<open>The terms of the derivative\<close>

text \<open>
  What the function does for a child that divides: when its derivative is neither the
  number zero nor the number one, the sum holds, with the sign of subtraction, the
  product of the other children, the child twice as a divisor, and the derivative.
\<close>

lemma quotient_rule_term_added:
  assumes "ii < length children" and "\<not> snd (children ! ii)"
    and "\<not> is_zero (D (fst (children ! ii)))" and "\<not> is_one (D (fst (children ! ii)))"
  shows "(quotient_rule_term D children ii, False)
           \<in> set (terms_of (MultOperator_Differentiate D children))"
proof -
  from assms have "MultOperator_iteration D children ii []
                   = [(quotient_rule_term D children ii, False)]"
    by (simp add: MultOperator_iteration_alone)
  moreover from assms(1) have "ii \<in> set [0..<length children]"
    by simp
  ultimately show ?thesis
    unfolding terms_of_MultOperator_Differentiate set_concat set_map
    by (metis UN_iff image_eqI list.set_intros(1))
qed

text \<open>
  The number of terms of the sum is the number of children whose derivative is neither
  the number zero nor the number one.
\<close>

lemma length_concat_sum_list:
  "length (concat (map f xs)) = sum_list (map (\<lambda>x. length (f x)) xs)"
  by (induction xs) simp_all

lemma count_terms:
  "length (concat (map (\<lambda>ii. MultOperator_iteration D children ii []) [0..<length children]))
   = length (filter (\<lambda>child. \<not> is_zero (D (fst child)) \<and> \<not> is_one (D (fst child)))
               children)"
proof -
  let ?w = "\<lambda>child. if \<not> is_zero (D (fst child)) \<and> \<not> is_one (D (fst child))
                     then 1 else (0::nat)"
  have "length (concat (map (\<lambda>ii. MultOperator_iteration D children ii [])
                           [0..<length children]))
        = sum_list (map (\<lambda>ii. length (MultOperator_iteration D children ii []))
                        [0..<length children])"
    by (simp only: length_concat_sum_list)
  also have "map (\<lambda>ii. length (MultOperator_iteration D children ii []))
                 [0..<length children]
             = map (\<lambda>ii. ?w (children ! ii)) [0..<length children]"
    by (rule map_cong) (auto simp add: MultOperator_iteration_alone)
  also have "map (\<lambda>ii. ?w (children ! ii)) [0..<length children] = map ?w children"
  proof -
    have "map (\<lambda>ii. ?w (children ! ii)) [0..<length children]
          = map ?w (map (\<lambda>ii. children ! ii) [0..<length children])"
      by (simp only: map_map comp_def)
    then show ?thesis
      by (simp only: map_nth)
  qed
  also have "sum_list (map ?w children)
             = length (filter (\<lambda>child. \<not> is_zero (D (fst child)) \<and> \<not> is_one (D (fst child)))
                              children)"
    by (induction children) simp_all
  finally show ?thesis .
qed

lemma MultOperator_Differentiate_number_of_terms:
  "length (terms_of (MultOperator_Differentiate D children))
   = length (filter (\<lambda>child. \<not> is_zero (D (fst child)) \<and> \<not> is_one (D (fst child)))
               children)"
  by (simp only: terms_of_MultOperator_Differentiate count_terms)

lemma upt_2: "[0..<2] = [0, 1]"
  by (simp add: upt_rec)

text \<open>
  C9. The claim is that, for every child that divides and whose derivative is not the
  number zero, the sum holds the quotient rule term of that child with the sign of
  subtraction. For \<open>y / x\<close> differentiated in \<open>x\<close>, the derivative of the divisor \<open>x\<close> is the
  number one, not zero: the iteration for \<open>x\<close> is left by \<^verbatim>\<open>continue\<close> before the term is
  completed and added, and the sum returned is empty.
\<close>

theorem MultOperator_Differentiate_drops_quotient_term:
  "\<not> is_zero (d_dx (Symbol ''x''))
   \<and> \<not> snd ([(Symbol ''y'', True), (Symbol ''x'', False)] ! 1)
   \<and> MultOperator_Differentiate d_dx [(Symbol ''y'', True), (Symbol ''x'', False)]
       = SumOperator []
   \<and> (quotient_rule_term d_dx [(Symbol ''y'', True), (Symbol ''x'', False)] 1, False)
       \<notin> set (terms_of (MultOperator_Differentiate d_dx
                              [(Symbol ''y'', True), (Symbol ''x'', False)]))"
  by (simp add: MultOperator_Differentiate_def MultOperator_iteration_def AddChild_def
                terms_of_def is_zero_def is_Number_def Eval_dbl_def d_dx_def Let_def upt_2)

text \<open>
  C10. The claim is that the sum holds one term for each child whose derivative is not
  the number zero, children whose derivative is the number one included. For \<open>x * 2\<close>
  differentiated in \<open>x\<close>, one child has a derivative that is not zero, the number one, and
  the sum returned has no term.
\<close>

theorem MultOperator_Differentiate_drops_unit_derivative:
  "\<not> is_zero (d_dx (Symbol ''x''))
   \<and> is_zero (d_dx (Number 2))
   \<and> MultOperator_Differentiate d_dx [(Symbol ''x'', True), (Number 2, True)] = SumOperator []
   \<and> length (terms_of (MultOperator_Differentiate d_dx
                             [(Symbol ''x'', True), (Number 2, True)])) = 0
   \<and> length (filter (\<lambda>child. \<not> is_zero (d_dx (fst child)))
                      [(Symbol ''x'', True), (Number 2, True)]) = 1"
  by (simp add: MultOperator_Differentiate_def MultOperator_iteration_def AddChild_def
                terms_of_def is_zero_def is_Number_def Eval_dbl_def d_dx_def Let_def upt_2)

end
